theory Spec2Isabelle
  imports Main
begin

section \<open>Errors\<close>

text \<open>
  Every exception the source raises is a value. \<open>ValidationError\<close> and \<open>ValueError\<close> carry
  the message of the source's \<open>raise\<close>. \<open>TypeError\<close> is what Python raises for \<open>len(None)\<close>;
  \<open>IntegrityError\<close> is the storage engine's uniqueness violation; \<open>DoesNotExist\<close> is what
  \<open>objects.get\<close> raises; \<open>Http404\<close> is what \<open>get_object_or_404\<close> raises.
\<close>

datatype error =
    ValidationError string
  | ValueError string
  | TypeError
  | IntegrityError
  | DoesNotExist
  | Http404

section \<open>models.py\<close>

datatype QuestionType = Text | Single_choice | Multi_choice

record Poll =
  poll_id :: nat
  poll_name :: string
  start_date :: int
  end_date :: int
  description :: string
  is_published :: bool

record Question =
  question_id :: nat
  question_poll :: nat
  question_text :: string
  question_type :: QuestionType

record ChoiceAnswer =
  choice_id :: nat
  choice_question :: nat
  choice_text :: string

text \<open>
  An \<open>Answer\<close> row. \<open>answer_user\<close> and \<open>answer_anonymous_id\<close> are the two nullable identity
  columns. The many-to-many field \<open>choice\<close> lives in the join table \<open>answer_choice_table\<close> of the
  store, as pairs (answer id, choice id).
\<close>

record Answer =
  answer_id :: nat
  answer_question :: nat
  answer_text :: "string option"
  answer_user :: "nat option"
  answer_anonymous_id :: "int option"

record store =
  poll_table :: "Poll list"
  question_table :: "Question list"
  choice_table :: "ChoiceAnswer list"
  answer_table :: "Answer list"
  answer_choice_table :: "(nat \<times> nat) list"
  next_question_id :: nat
  next_choice_id :: nat
  next_answer_id :: nat

text \<open>\<open>Question.has_choice\<close>: \<open>self.type in [multi_choice, single_choice]\<close>.\<close>

definition has_choice :: "Question \<Rightarrow> bool" where
  "has_choice q = (question_type q \<in> set [Multi_choice, Single_choice])"

text \<open>
  Python truthiness of the two identity fields, as \<open>Answer.save\<close> tests them: a user
  object is truthy and \<open>None\<close> is not; an integer is truthy unless it is \<open>0\<close>.
\<close>

definition truthy_user :: "nat option \<Rightarrow> bool" where
  "truthy_user u = (u \<noteq> None)"

definition truthy_int :: "int option \<Rightarrow> bool" where
  "truthy_int a = (case a of None \<Rightarrow> False | Some n \<Rightarrow> n \<noteq> 0)"

text \<open>
  \<open>UniqueTogetherValidator._validate_unique_together_for_null_fields\<close>:
  \<open>objects.filter(user=.., anonymous_id=.., question=..).exists()\<close>; a \<open>None\<close> in the filter
  matches the rows whose column is null.
\<close>

definition validate_unique_together_for_null_fields ::
    "store \<Rightarrow> nat option \<Rightarrow> int option \<Rightarrow> nat \<Rightarrow> error + unit" where
  "validate_unique_together_for_null_fields st u a q =
     (if list_ex (\<lambda>r. answer_user r = u \<and> answer_anonymous_id r = a \<and> answer_question r = q)
           (answer_table st)
      then Inl (ValueError ''Value not unique'')
      else Inr ())"

text \<open>
  \<open>Answer.save\<close>. The row to insert carries no id yet; the insert of \<open>super().save\<close> gives it
  the next id of the table. After the explicit uniqueness check has passed, the table's
  own unique constraint on (user, anonymous_id, question) cannot fire, so the insert
  itself has no error branch.
\<close>

definition Answer_save :: "store \<Rightarrow> Answer \<Rightarrow> error + (store \<times> Answer)" where
  "Answer_save st self =
     (if truthy_user (answer_user self) \<and> truthy_int (answer_anonymous_id self)
      then Inl (ValueError ''Cant use user auth and anonymous token both'')
      else
        (case validate_unique_together_for_null_fields st
                (answer_user self) (answer_anonymous_id self) (answer_question self) of
           Inl e \<Rightarrow> Inl e
         | Inr _ \<Rightarrow>
             (let row = self\<lparr>answer_id := next_answer_id st\<rparr>
              in Inr (st\<lparr>answer_table := answer_table st @ [row],
                         next_answer_id := Suc (next_answer_id st)\<rparr>, row))))"

section \<open>permissions.py\<close>

text \<open>
  A value of the request body under one key: JSON null, a number, a string or a boolean.
  \<open>py_bool\<close> is Python's \<open>bool(..)\<close> on it.
\<close>

datatype json = JNull | JInt int | JStr string | JBool bool

fun py_bool :: "json \<Rightarrow> bool" where
  "py_bool JNull = False"
| "py_bool (JInt n) = (n \<noteq> 0)"
| "py_bool (JStr s) = (s \<noteq> [])"
| "py_bool (JBool b) = b"

text \<open>
  The parts of a request the permission reads: the caller (\<open>None\<close> is the anonymous user,
  whose \<open>is_authenticated\<close> is false), the query string (every value a string) and the
  body. \<open>dict.get\<close> on a missing key is \<open>None\<close>, and \<open>bool(None)\<close> is false.
\<close>

record Request =
  request_user :: "nat option"
  query_params :: "string \<rightharpoonup> string"
  request_data :: "string \<rightharpoonup> json"

definition is_authenticated :: "Request \<Rightarrow> bool" where
  "is_authenticated request = (request_user request \<noteq> None)"

definition bool_query :: "string option \<Rightarrow> bool" where
  "bool_query v = (case v of None \<Rightarrow> False | Some s \<Rightarrow> s \<noteq> [])"

definition bool_data :: "json option \<Rightarrow> bool" where
  "bool_data v = (case v of None \<Rightarrow> False | Some j \<Rightarrow> py_bool j)"

definition has_permission :: "Request \<Rightarrow> string \<Rightarrow> bool" where
  "has_permission request action =
     (if action \<in> set [''vote_in_poll'', ''show_answers'']
      then
        (let is_anonymous_id =
               (bool_query (query_params request ''anonymous_id'')
                \<or> bool_data (request_data request ''anonymous_id''))
         in if is_authenticated request = is_anonymous_id then False else True)
      else True)"

section \<open>Primary keys in URLs\<close>

text \<open>
  The view's keyword arguments (\<open>pk\<close>, \<open>poll_pk\<close>) are the URL segments, strings.
  \<open>str_nat\<close> is Python's \<open>str\<close> on a primary key. \<open>pk_of_string\<close> is the conversion a
  lookup \<open>get(pk=..)\<close> applies to such a string: a non-empty string of decimal digits is
  read as a number (leading zeros allowed). Python's \<open>int\<close> also reads a sign, surrounding
  blanks and underscores between digits; those spellings are left out here, and every
  other string is no number, on which the lookup fails.
\<close>

definition digit_char :: "nat \<Rightarrow> char" where
  "digit_char d = ''0123456789'' ! d"

fun str_nat :: "nat \<Rightarrow> string" where
  "str_nat n = (if n < 10 then [digit_char n] else str_nat (n div 10) @ [digit_char (n mod 10)])"

declare str_nat.simps [simp del]

definition digit_val :: "char \<Rightarrow> nat option" where
  "digit_val c = map_of
     [(CHR ''0'', 0), (CHR ''1'', 1), (CHR ''2'', 2), (CHR ''3'', 3), (CHR ''4'', 4),
      (CHR ''5'', 5), (CHR ''6'', 6), (CHR ''7'', 7), (CHR ''8'', 8), (CHR ''9'', 9)] c"

fun int_of_digits :: "nat \<Rightarrow> string \<Rightarrow> nat option" where
  "int_of_digits acc [] = Some acc"
| "int_of_digits acc (c # cs) =
     (case digit_val c of None \<Rightarrow> None | Some d \<Rightarrow> int_of_digits (10 * acc + d) cs)"

definition pk_of_string :: "string \<Rightarrow> nat option" where
  "pk_of_string s = (if s = [] then None else int_of_digits 0 s)"

text \<open>\<open>queryset.get(pk=pk)\<close> on a queryset of polls.\<close>

definition polls_get :: "Poll list \<Rightarrow> string \<Rightarrow> error + Poll" where
  "polls_get qs pk =
     (case pk_of_string pk of
        None \<Rightarrow> Inl (ValueError ''Field id expected a number'')
      | Some n \<Rightarrow>
          (case find (\<lambda>p. poll_id p = n) qs of
             None \<Rightarrow> Inl DoesNotExist
           | Some p \<Rightarrow> Inr p))"

text \<open>\<open>poll.questions\<close>: the reverse relation of \<open>Question.poll\<close>.\<close>

definition poll_questions :: "store \<Rightarrow> Poll \<Rightarrow> Question list" where
  "poll_questions st p = filter (\<lambda>q. question_poll q = poll_id p) (question_table st)"

section \<open>views.py: the querysets of UserPolls\<close>

text \<open>
  The class attribute \<open>UserPolls.queryset\<close> is every poll. \<open>UserPolls.get_queryset\<close> keeps
  the active ones: \<open>start_date < now\<close>, \<open>end_date > now\<close>, \<open>is_published\<close>.
\<close>

definition UserPolls_queryset :: "store \<Rightarrow> Poll list" where
  "UserPolls_queryset st = poll_table st"

definition UserPolls_get_queryset :: "store \<Rightarrow> int \<Rightarrow> Poll list" where
  "UserPolls_get_queryset st now =
     filter (\<lambda>p. start_date p < now \<and> end_date p > now \<and> is_published p = True)
       (UserPolls_queryset st)"

section \<open>serializers.py: answers\<close>

text \<open>
  The attributes of one submitted answer after field parsing: the question instance, the
  text (\<open>None\<close> when absent or null) and the choice instances (\<open>None\<close> when the key is
  absent, so that \<open>attrs.get("choice")\<close> is \<open>None\<close>).
\<close>

record AnswerAttrs =
  attrs_question :: Question
  attrs_text :: "string option"
  attrs_choice :: "ChoiceAnswer list option"

text \<open>\<open>AnswerSerializer.validate\<close>. \<open>len(None)\<close> raises \<open>TypeError\<close>.\<close>

definition AnswerSerializer_validate :: "AnswerAttrs \<Rightarrow> error + AnswerAttrs" where
  "AnswerSerializer_validate attrs =
     (let qtype = question_type (attrs_question attrs) in
      if qtype = Text then
        (if attrs_choice attrs \<noteq> None
         then Inl (ValidationError ''This is text question, not choice'')
         else Inr attrs)
      else if qtype = Single_choice then
        (case attrs_choice attrs of
           None \<Rightarrow> Inl TypeError
         | Some choice \<Rightarrow>
             if length choice > 1 \<or> attrs_text attrs \<noteq> None
             then Inl (ValidationError
               ''This question only for one choice and choice field not contains text'')
             else Inr attrs)
      else if qtype = Multi_choice then
        (if attrs_text attrs \<noteq> None
         then Inl (ValidationError ''Choice field not contains text'')
         else Inr attrs)
      else Inr attrs)"

text \<open>The body of a vote after field parsing.\<close>

record UserPollData =
  data_answers :: "AnswerAttrs list"
  data_anonymous_id :: "int option"

text \<open>The first loop of \<open>UserPollSerializer.validate\<close>.\<close>

fun check_poll_ids :: "string \<Rightarrow> AnswerAttrs list \<Rightarrow> error + unit" where
  "check_poll_ids pk [] = Inr ()"
| "check_poll_ids pk (answer # rest) =
     (if pk \<noteq> str_nat (question_poll (attrs_question answer))
      then Inl (ValidationError ''Invalid question id for this poll'')
      else check_poll_ids pk rest)"

text \<open>
  \<open>UserPollSerializer.validate\<close>. The poll is read from \<open>view.queryset\<close>, the class
  attribute. Question instances are compared by primary key, as model instances are.
\<close>

definition UserPollSerializer_validate ::
    "store \<Rightarrow> string \<Rightarrow> UserPollData \<Rightarrow> error + UserPollData" where
  "UserPollSerializer_validate st pk attrs =
     (case check_poll_ids pk (data_answers attrs) of
        Inl e \<Rightarrow> Inl e
      | Inr _ \<Rightarrow>
          (case polls_get (UserPolls_queryset st) pk of
             Inl e \<Rightarrow> Inl e
           | Inr poll \<Rightarrow>
               if length (poll_questions st poll) \<noteq> length (data_answers attrs)
               then Inl (ValidationError ''pls answer the all questions'')
               else
                 (let qs = map attrs_question (data_answers attrs) in
                  if set (map question_id qs) \<noteq> set (map question_id (poll_questions st poll))
                  then Inl (ValidationError ''Invalid question ids for this poll'')
                  else Inr attrs)))"

text \<open>
  \<open>answer.choice.add(*choice)\<close>: one row of the join table for each distinct choice not
  linked to the answer yet.
\<close>

definition choice_add :: "store \<Rightarrow> nat \<Rightarrow> ChoiceAnswer list \<Rightarrow> store" where
  "choice_add st aid choice =
     st\<lparr>answer_choice_table := answer_choice_table st @
          map (\<lambda>c. (aid, c))
            (filter (\<lambda>c. (aid, c) \<notin> set (answer_choice_table st))
               (remdups (map choice_id choice)))\<rparr>"

text \<open>
  The loop of \<open>UserPollSerializer.create\<close>. Each iteration runs in its own
  \<open>transaction.atomic()\<close> block, a savepoint: when the iteration raises, the store is the
  one the iteration started from, and the rows of the earlier iterations are still there.
  A \<open>ValueError\<close> of \<open>Answer.save\<close> is re-raised as a \<open>ValidationError\<close> with its message.
  The id of the instance handed to \<open>Answer.save\<close> is a placeholder; the insert sets it.
\<close>

fun create_answers ::
    "store \<Rightarrow> nat option \<Rightarrow> int option \<Rightarrow> AnswerAttrs list \<Rightarrow> store \<times> (error + Answer list)" where
  "create_answers st user anon [] = (st, Inr [])"
| "create_answers st user anon (answer # rest) =
     (case Answer_save st
             \<lparr>answer_id = 0,
              answer_question = question_id (attrs_question answer),
              answer_text = attrs_text answer,
              answer_user = user,
              answer_anonymous_id = anon\<rparr> of
        Inl (ValueError err) \<Rightarrow> (st, Inl (ValidationError err))
      | Inl e \<Rightarrow> (st, Inl e)
      | Inr (st1, row) \<Rightarrow>
          (let st2 = (case attrs_choice answer of
                        None \<Rightarrow> st1
                      | Some choice \<Rightarrow>
                          if choice \<noteq> [] then choice_add st1 (answer_id row) choice else st1)
           in case create_answers st2 user anon rest of
                (st3, Inl e) \<Rightarrow> (st3, Inl e)
              | (st3, Inr rows) \<Rightarrow> (st3, Inr (row # rows))))"

text \<open>
  The result of \<open>create\<close>: the saved answers, and the anonymous id when it is truthy
  (\<open>None\<close> stands for the key being absent from the result).
\<close>

record VoteResult =
  result_answers :: "Answer list"
  result_anonymous_id :: "int option"

definition UserPollSerializer_create ::
    "store \<Rightarrow> nat option \<Rightarrow> UserPollData \<Rightarrow> store \<times> (error + VoteResult)" where
  "UserPollSerializer_create st user validated_data =
     (case create_answers st user (data_anonymous_id validated_data)
             (data_answers validated_data) of
        (st1, Inl e) \<Rightarrow> (st1, Inl e)
      | (st1, Inr answers_db) \<Rightarrow>
          (st1, Inr \<lparr>result_answers = answers_db,
                     result_anonymous_id =
                       (if truthy_int (data_anonymous_id validated_data)
                        then data_anonymous_id validated_data else None)\<rparr>))"

text \<open>
  \<open>serializer.is_valid\<close>: the nested answer serializer validates every answer, then
  \<open>UserPollSerializer.validate\<close> runs on the whole body. The first error is the one kept.
\<close>

fun validate_answers :: "AnswerAttrs list \<Rightarrow> error + AnswerAttrs list" where
  "validate_answers [] = Inr []"
| "validate_answers (a # rest) =
     (case AnswerSerializer_validate a of
        Inl e \<Rightarrow> Inl e
      | Inr a1 \<Rightarrow>
          (case validate_answers rest of Inl e \<Rightarrow> Inl e | Inr rest1 \<Rightarrow> Inr (a1 # rest1)))"

definition UserPollSerializer_is_valid ::
    "store \<Rightarrow> string \<Rightarrow> UserPollData \<Rightarrow> error + UserPollData" where
  "UserPollSerializer_is_valid st pk body =
     (case validate_answers (data_answers body) of
        Inl e \<Rightarrow> Inl e
      | Inr as \<Rightarrow> UserPollSerializer_validate st pk (body\<lparr>data_answers := as\<rparr>))"

section \<open>views.py: voting\<close>

text \<open>
  \<open>@transaction.atomic\<close>: when the wrapped operation raises, every write it made is rolled
  back, and the store is the one before the call. The id counters are kept in the store
  and go back with it; no row that survives can tell.
\<close>

definition atomic ::
    "(store \<Rightarrow> store \<times> (error + 'a)) \<Rightarrow> store \<Rightarrow> store \<times> (error + 'a)" where
  "atomic f st =
     (case f st of
        (st1, Inl e) \<Rightarrow> (st, Inl e)
      | (st1, Inr r) \<Rightarrow> (st1, Inr r))"

text \<open>
  \<open>UserPolls.vote_in_poll\<close>: \<open>is_valid(raise_exception=True)\<close>, then \<open>save()\<close>, which calls
  \<open>create\<close>. \<open>pk\<close> is the URL segment and \<open>user\<close> the authenticated caller, if any. The
  method reads neither the clock nor \<open>get_queryset\<close>. The value returned is the result
  of \<open>create\<close>, from which the response is rendered.
\<close>

definition vote_in_poll ::
    "store \<Rightarrow> string \<Rightarrow> nat option \<Rightarrow> UserPollData \<Rightarrow> store \<times> (error + VoteResult)" where
  "vote_in_poll st pk user body =
     atomic (\<lambda>s. case UserPollSerializer_is_valid s pk body of
                   Inl e \<Rightarrow> (s, Inl e)
                 | Inr validated_data \<Rightarrow> UserPollSerializer_create s user validated_data) st"

section \<open>serializers.py: questions\<close>

text \<open>
  A key of the parsed body that may be missing, explicitly null, or present with a value.
\<close>

datatype 'a field = Absent | Null | Given 'a

text \<open>
  The parsed body of a question create or update. A choice is the dictionary
  \<open>{'text': ..}\<close> (the choice serializer excludes the question and the id is read-only),
  so a choice is its text. The type may be missing: the model's default is \<open>text\<close>.
\<close>

record QuestionData =
  qd_text :: string
  qd_type :: "QuestionType option"
  qd_choices :: "string list field"

text \<open>\<open>attrs.get('choices')\<close> is \<open>None\<close> for a missing or null key.\<close>

definition get_choices :: "string list field \<Rightarrow> string list option" where
  "get_choices f = (case f of Absent \<Rightarrow> None | Null \<Rightarrow> None | Given cs \<Rightarrow> Some cs)"

text \<open>\<open>validated_data.pop('choices', [])\<close>: the default only replaces a missing key.\<close>

definition pop_choices :: "string list field \<Rightarrow> string list option" where
  "pop_choices f = (case f of Absent \<Rightarrow> Some [] | Null \<Rightarrow> None | Given cs \<Rightarrow> Some cs)"

text \<open>
  \<open>QuestionSerializer.validate\<close>: the walrus test is false for \<open>None\<close> and for the empty
  list; \<open>len(choices_set)\<close> is the number of distinct choices.
\<close>

definition QuestionSerializer_validate :: "QuestionData \<Rightarrow> error + QuestionData" where
  "QuestionSerializer_validate attrs =
     (case get_choices (qd_choices attrs) of
        None \<Rightarrow> Inr attrs
      | Some choices \<Rightarrow>
          if choices \<noteq> [] then
            (if length choices \<noteq> card (set choices)
             then Inl (ValidationError ''Choices values must be unique'')
             else Inr attrs)
          else Inr attrs)"

text \<open>
  \<open>ChoiceAnswer.objects.bulk_create\<close>: the table is unique on (text, question), so a text
  repeated in the batch or already stored for the question is an \<open>IntegrityError\<close>.
\<close>

definition ChoiceAnswer_bulk_create :: "store \<Rightarrow> nat \<Rightarrow> string list \<Rightarrow> error + store" where
  "ChoiceAnswer_bulk_create st qid texts =
     (if \<not> distinct texts
         \<or> list_ex (\<lambda>c. choice_question c = qid \<and> choice_text c \<in> set texts) (choice_table st)
      then Inl IntegrityError
      else Inr (st\<lparr>choice_table := choice_table st @
                     map (\<lambda>(i, t). \<lparr>choice_id = i, choice_question = qid, choice_text = t\<rparr>)
                       (enumerate (next_choice_id st) texts),
                   next_choice_id := next_choice_id st + length texts\<rparr>))"

text \<open>\<open>QuestionSerializer._save_choices\<close>: nothing is written for \<open>None\<close> or an empty list.\<close>

definition save_choices :: "store \<Rightarrow> Question \<Rightarrow> string list option \<Rightarrow> error + store" where
  "save_choices st question choices =
     (case choices of
        None \<Rightarrow> Inr st
      | Some cs \<Rightarrow>
          if cs \<noteq> [] then ChoiceAnswer_bulk_create st (question_id question) cs else Inr st)"

text \<open>\<open>Question.objects.create\<close>: the table is unique on (poll, text).\<close>

definition Question_objects_create ::
    "store \<Rightarrow> string \<Rightarrow> QuestionType \<Rightarrow> nat \<Rightarrow> error + (store \<times> Question)" where
  "Question_objects_create st txt ty pid =
     (if list_ex (\<lambda>q. question_poll q = pid \<and> question_text q = txt) (question_table st)
      then Inl IntegrityError
      else
        (let question = \<lparr>question_id = next_question_id st, question_poll = pid,
                         question_text = txt, question_type = ty\<rparr>
         in Inr (st\<lparr>question_table := question_table st @ [question],
                    next_question_id := Suc (next_question_id st)\<rparr>, question)))"

text \<open>
  The count check of \<open>QuestionSerializer.create\<close>; \<open>len(choices)\<close> is evaluated only for a
  single-choice question, and raises \<open>TypeError\<close> when \<open>choices\<close> is \<open>None\<close>.
\<close>

definition check_single_choice :: "Question \<Rightarrow> string list option \<Rightarrow> error + unit" where
  "check_single_choice question choices =
     (if has_choice question then
        (if question_type question = Single_choice then
           (case choices of
              None \<Rightarrow> Inl TypeError
            | Some cs \<Rightarrow>
                if length cs \<noteq> 1
                then Inl (ValidationError ''Single choice allow only one choice'')
                else Inr ())
         else Inr ())
      else Inr ())"

text \<open>
  \<open>QuestionSerializer.create\<close>. The store of an error result is the store at the moment
  of the raise: the question row is already inserted when the count check fails.
\<close>

definition QuestionSerializer_create ::
    "store \<Rightarrow> string \<Rightarrow> QuestionData \<Rightarrow> store \<times> (error + Question)" where
  "QuestionSerializer_create st poll_pk validated_data =
     (let choices = pop_choices (qd_choices validated_data) in
      case polls_get (poll_table st) poll_pk of
        Inl e \<Rightarrow> (st, Inl e)
      | Inr poll \<Rightarrow>
          if is_published poll then (st, Inl (ValidationError ''Cant update published poll''))
          else
            (case Question_objects_create st (qd_text validated_data)
                    (case qd_type validated_data of None \<Rightarrow> Text | Some ty \<Rightarrow> ty)
                    (poll_id poll) of
               Inl IntegrityError \<Rightarrow>
                 (st, Inl (ValidationError ''This question exists in the poll''))
             | Inl e \<Rightarrow> (st, Inl e)
             | Inr (st1, question) \<Rightarrow>
                 (case check_single_choice question choices of
                    Inl e \<Rightarrow> (st1, Inl e)
                  | Inr _ \<Rightarrow>
                      (case save_choices st1 question choices of
                         Inl e \<Rightarrow> (st1, Inl e)
                       | Inr st2 \<Rightarrow> (st2, Inr question)))))"

text \<open>
  \<open>for choice in instance.choices.all(): choice.delete()\<close>: the question's choices go, and
  with them the rows of the join table that point at them.
\<close>

definition delete_choices :: "store \<Rightarrow> Question \<Rightarrow> store" where
  "delete_choices st instance =
     (let gone = map choice_id
                   (filter (\<lambda>c. choice_question c = question_id instance) (choice_table st))
      in st\<lparr>choice_table := filter (\<lambda>c. choice_question c \<noteq> question_id instance) (choice_table st),
            answer_choice_table := filter (\<lambda>(a, c). c \<notin> set gone) (answer_choice_table st)\<rparr>)"

text \<open>
  \<open>super().update(instance, validated_data)\<close>: the remaining keys are set on the instance
  and the row is saved; a text another question of the poll already has is an
  \<open>IntegrityError\<close>.
\<close>

definition Question_update ::
    "store \<Rightarrow> Question \<Rightarrow> QuestionData \<Rightarrow> error + (store \<times> Question)" where
  "Question_update st instance validated_data =
     (let question = instance\<lparr>question_text := qd_text validated_data,
                              question_type := (case qd_type validated_data of
                                                  None \<Rightarrow> question_type instance
                                                | Some ty \<Rightarrow> ty)\<rparr>
      in if list_ex (\<lambda>q. question_id q \<noteq> question_id question
                          \<and> question_poll q = question_poll question
                          \<and> question_text q = question_text question) (question_table st)
         then Inl IntegrityError
         else Inr (st\<lparr>question_table :=
                        map (\<lambda>q. if question_id q = question_id question then question else q)
                          (question_table st)\<rparr>, question))"

text \<open>\<open>QuestionSerializer.update\<close>; \<open>instance.poll\<close> is the poll row the question points at.\<close>

definition QuestionSerializer_update ::
    "store \<Rightarrow> Question \<Rightarrow> QuestionData \<Rightarrow> store \<times> (error + Question)" where
  "QuestionSerializer_update st instance validated_data =
     (case find (\<lambda>p. poll_id p = question_poll instance) (poll_table st) of
        None \<Rightarrow> (st, Inl DoesNotExist)
      | Some poll \<Rightarrow>
          if is_published poll then (st, Inl (ValidationError ''Cant update published poll''))
          else
            (let st1 = delete_choices st instance;
                 choices = pop_choices (qd_choices validated_data)
             in case save_choices st1 instance choices of
                  Inl e \<Rightarrow> (st1, Inl e)
                | Inr st2 \<Rightarrow>
                    (case Question_update st2 instance validated_data of
                       Inl e \<Rightarrow> (st2, Inl e)
                     | Inr (st3, question) \<Rightarrow> (st3, Inr question))))"

section \<open>views.py: question administration\<close>

text \<open>
  \<open>QuestionAdminViewSet.initial\<close>: \<open>get_object_or_404\<close> on the poll of the URL; a missing
  poll is \<open>Http404\<close>.
\<close>

definition QuestionAdmin_initial :: "store \<Rightarrow> string \<Rightarrow> error + Poll" where
  "QuestionAdmin_initial st poll_pk =
     (case polls_get (poll_table st) poll_pk of
        Inl DoesNotExist \<Rightarrow> Inl Http404
      | Inl e \<Rightarrow> Inl e
      | Inr poll \<Rightarrow> Inr poll)"

text \<open>\<open>get_queryset\<close> keeps the questions of the poll; \<open>get_object\<close> looks \<open>pk\<close> up there.\<close>

definition QuestionAdmin_get_queryset :: "store \<Rightarrow> Poll \<Rightarrow> Question list" where
  "QuestionAdmin_get_queryset st poll =
     filter (\<lambda>q. question_poll q = poll_id poll) (question_table st)"

definition QuestionAdmin_get_object :: "store \<Rightarrow> Poll \<Rightarrow> string \<Rightarrow> error + Question" where
  "QuestionAdmin_get_object st poll pk =
     (case pk_of_string pk of
        None \<Rightarrow> Inl Http404
      | Some n \<Rightarrow>
          (case find (\<lambda>q. question_id q = n) (QuestionAdmin_get_queryset st poll) of
             None \<Rightarrow> Inl Http404
           | Some q \<Rightarrow> Inr q))"

text \<open>
  Deleting a question cascades to its choices and answers and to the rows of the join
  table of either.
\<close>

definition Question_delete :: "store \<Rightarrow> Question \<Rightarrow> store" where
  "Question_delete st instance =
     (let qid = question_id instance;
          gone_choices = map choice_id (filter (\<lambda>c. choice_question c = qid) (choice_table st));
          gone_answers = map answer_id (filter (\<lambda>a. answer_question a = qid) (answer_table st))
      in st\<lparr>question_table := filter (\<lambda>q. question_id q \<noteq> qid) (question_table st),
            choice_table := filter (\<lambda>c. choice_question c \<noteq> qid) (choice_table st),
            answer_table := filter (\<lambda>a. answer_question a \<noteq> qid) (answer_table st),
            answer_choice_table := filter (\<lambda>(a, c). a \<notin> set gone_answers \<and> c \<notin> set gone_choices)
                               (answer_choice_table st)\<rparr>)"

text \<open>
  The three writing actions of \<open>QuestionAdminViewSet\<close>, each \<open>@transaction.atomic\<close>, after
  \<open>initial\<close>. Create and update run \<open>is_valid\<close> (the serializer's \<open>validate\<close>) and then the
  serializer's \<open>create\<close> or \<open>update\<close>; update and destroy fetch the question with
  \<open>get_object\<close>. The caller is taken to be an administrator.
\<close>

definition QuestionAdmin_create ::
    "store \<Rightarrow> string \<Rightarrow> QuestionData \<Rightarrow> store \<times> (error + Question)" where
  "QuestionAdmin_create st poll_pk body =
     (case QuestionAdmin_initial st poll_pk of
        Inl e \<Rightarrow> (st, Inl e)
      | Inr poll \<Rightarrow>
          atomic (\<lambda>s. case QuestionSerializer_validate body of
                        Inl e \<Rightarrow> (s, Inl e)
                      | Inr validated_data \<Rightarrow>
                          QuestionSerializer_create s poll_pk validated_data) st)"

definition QuestionAdmin_update ::
    "store \<Rightarrow> string \<Rightarrow> string \<Rightarrow> QuestionData \<Rightarrow> store \<times> (error + Question)" where
  "QuestionAdmin_update st poll_pk pk body =
     (case QuestionAdmin_initial st poll_pk of
        Inl e \<Rightarrow> (st, Inl e)
      | Inr poll \<Rightarrow>
          atomic (\<lambda>s. case QuestionAdmin_get_object s poll pk of
                        Inl e \<Rightarrow> (s, Inl e)
                      | Inr instance \<Rightarrow>
                          (case QuestionSerializer_validate body of
                             Inl e \<Rightarrow> (s, Inl e)
                           | Inr validated_data \<Rightarrow>
                               QuestionSerializer_update s instance validated_data)) st)"

definition QuestionAdmin_destroy :: "store \<Rightarrow> string \<Rightarrow> string \<Rightarrow> store \<times> (error + unit)" where
  "QuestionAdmin_destroy st poll_pk pk =
     (case QuestionAdmin_initial st poll_pk of
        Inl e \<Rightarrow> (st, Inl e)
      | Inr poll \<Rightarrow>
          atomic (\<lambda>s. if is_published poll
                      then (s, Inl (ValidationError
                                      ''Poll already published and cannot be changed''))
                      else
                        (case QuestionAdmin_get_object s poll pk of
                           Inl e \<Rightarrow> (s, Inl e)
                         | Inr instance \<Rightarrow> (Question_delete s instance, Inr ()))) st)"

section \<open>A sample store\<close>

text \<open>
  Poll 1 with a single-choice question (choices yes and no) and a text question, no
  answers yet; the same store with the poll not published; and one voter's answers to
  both questions.
\<close>

definition ex_poll :: Poll where
  "ex_poll = \<lparr>poll_id = 1, poll_name = ''P'', start_date = 0, end_date = 100,
              description = ''d'', is_published = True\<rparr>"

definition ex_q1 :: Question where
  "ex_q1 = \<lparr>question_id = 1, question_poll = 1, question_text = ''Q1'',
            question_type = Single_choice\<rparr>"

definition ex_q2 :: Question where
  "ex_q2 = \<lparr>question_id = 2, question_poll = 1, question_text = ''Q2'',
            question_type = Text\<rparr>"

definition ex_c1 :: ChoiceAnswer where
  "ex_c1 = \<lparr>choice_id = 1, choice_question = 1, choice_text = ''yes''\<rparr>"

definition ex_c2 :: ChoiceAnswer where
  "ex_c2 = \<lparr>choice_id = 2, choice_question = 1, choice_text = ''no''\<rparr>"

definition ex_store :: store where
  "ex_store = \<lparr>poll_table = [ex_poll], question_table = [ex_q1, ex_q2],
               choice_table = [ex_c1, ex_c2], answer_table = [], answer_choice_table = [],
               next_question_id = 3, next_choice_id = 3, next_answer_id = 1\<rparr>"

definition ex_draft_store :: store where
  "ex_draft_store = ex_store\<lparr>poll_table := [ex_poll\<lparr>is_published := False\<rparr>]\<rparr>"

definition ex_a1 :: AnswerAttrs where
  "ex_a1 = \<lparr>attrs_question = ex_q1, attrs_text = None, attrs_choice = Some [ex_c1]\<rparr>"

definition ex_a2 :: AnswerAttrs where
  "ex_a2 = \<lparr>attrs_question = ex_q2, attrs_text = Some ''hello'', attrs_choice = None\<rparr>"

definition ex_vote :: UserPollData where
  "ex_vote = \<lparr>data_answers = [ex_a1, ex_a2], data_anonymous_id = Some 42\<rparr>"

text \<open>
  The rows and the result of that vote, the store after it, and a body that answers the
  first question twice.
\<close>

definition ex_row1 :: Answer where
  "ex_row1 = \<lparr>answer_id = 1, answer_question = 1, answer_text = None,
              answer_user = None, answer_anonymous_id = Some 42\<rparr>"

definition ex_row2 :: Answer where
  "ex_row2 = \<lparr>answer_id = 2, answer_question = 2, answer_text = Some ''hello'',
              answer_user = None, answer_anonymous_id = Some 42\<rparr>"

definition ex_result :: VoteResult where
  "ex_result = \<lparr>result_answers = [ex_row1, ex_row2], result_anonymous_id = Some 42\<rparr>"

definition ex_voted :: "store \<Rightarrow> store" where
  "ex_voted st = st\<lparr>answer_table := [ex_row1, ex_row2], answer_choice_table := [(1, 1)],
                   next_answer_id := 3\<rparr>"

definition ex_double_vote :: UserPollData where
  "ex_double_vote = \<lparr>data_answers = [ex_a1, ex_a1], data_anonymous_id = Some 42\<rparr>"

text \<open>
  Bodies for the question administration: a new single-choice question with one choice
  and with none, and a replacement of the first question's choices by three.
\<close>

definition ex_body :: QuestionData where
  "ex_body = \<lparr>qd_text = ''Q3'', qd_type = Some Single_choice, qd_choices = Given [''a'']\<rparr>"

definition ex_body_empty :: QuestionData where
  "ex_body_empty = \<lparr>qd_text = ''Q3'', qd_type = Some Single_choice, qd_choices = Given []\<rparr>"

definition ex_body_three :: QuestionData where
  "ex_body_three = \<lparr>qd_text = ''Q1'', qd_type = None, qd_choices = Given [''a'', ''b'', ''c'']\<rparr>"

lemmas ex_defs =
  ex_poll_def ex_q1_def ex_q2_def ex_c1_def ex_c2_def ex_store_def ex_draft_store_def
  ex_a1_def ex_a2_def ex_vote_def ex_row1_def ex_row2_def ex_result_def ex_voted_def
  ex_double_vote_def ex_body_def ex_body_empty_def ex_body_three_def

lemmas admin_defs =
  QuestionAdmin_create_def QuestionAdmin_update_def QuestionAdmin_destroy_def
  QuestionAdmin_initial_def QuestionAdmin_get_object_def QuestionAdmin_get_queryset_def
  QuestionSerializer_validate_def QuestionSerializer_create_def QuestionSerializer_update_def
  Question_objects_create_def Question_update_def Question_delete_def delete_choices_def
  save_choices_def ChoiceAnswer_bulk_create_def check_single_choice_def has_choice_def
  get_choices_def pop_choices_def atomic_def polls_get_def pk_of_string_def digit_val_def
  Let_def

lemmas vote_defs =
  vote_in_poll_def atomic_def UserPollSerializer_is_valid_def AnswerSerializer_validate_def
  UserPollSerializer_validate_def UserPolls_queryset_def polls_get_def pk_of_string_def
  digit_val_def poll_questions_def str_nat.simps digit_char_def UserPollSerializer_create_def
  Answer_save_def validate_unique_together_for_null_fields_def truthy_user_def truthy_int_def
  choice_add_def Let_def

section \<open>The permission\<close>

lemma has_permission_iff:
  "has_permission request action =
     (action \<in> {''vote_in_poll'', ''show_answers''} \<longrightarrow>
        is_authenticated request \<noteq>
          (bool_query (query_params request ''anonymous_id'')
           \<or> bool_data (request_data request ''anonymous_id'')))"
  by (simp add: has_permission_def Let_def)

text \<open>
  C7. The claim: a vote or history request is permitted exactly when one of "the caller is
  authenticated" and "the caller supplies an anonymous id" holds, and an unauthenticated
  caller supplying any integer anonymous id is permitted. The code tests the supplied
  value for truthiness. An unauthenticated caller whose body carries the integer 0 is
  refused; an authenticated caller whose body carries the integer 0 is permitted; and the
  same 0 in the query string, a non-empty string, counts as supplied.
\<close>

theorem has_permission_zero_anonymous_id:
  "has_permission \<lparr>request_user = None, query_params = Map.empty,
                   request_data = [''anonymous_id'' \<mapsto> JInt 0]\<rparr> ''vote_in_poll'' = False
   \<and> has_permission \<lparr>request_user = Some 7, query_params = Map.empty,
                     request_data = [''anonymous_id'' \<mapsto> JInt 0]\<rparr> ''vote_in_poll'' = True
   \<and> has_permission \<lparr>request_user = None, query_params = [''anonymous_id'' \<mapsto> ''0''],
                     request_data = Map.empty\<rparr> ''vote_in_poll'' = True"
  by (simp add: has_permission_def is_authenticated_def bool_query_def bool_data_def)

section \<open>Saving an answer\<close>

lemma Answer_save_both_truthy:
  "answer_user self = Some u \<Longrightarrow> answer_anonymous_id self = Some n \<Longrightarrow> n \<noteq> 0 \<Longrightarrow>
   Answer_save st self = Inl (ValueError ''Cant use user auth and anonymous token both'')"
  by (simp add: Answer_save_def truthy_user_def truthy_int_def)

lemma Answer_save_no_identity:
  "answer_user self = None \<Longrightarrow> answer_anonymous_id self = None \<Longrightarrow>
   \<not> list_ex (\<lambda>r. answer_user r = None \<and> answer_anonymous_id r = None
                    \<and> answer_question r = answer_question self) (answer_table st) \<Longrightarrow>
   \<exists>st1 row. Answer_save st self = Inr (st1, row)"
  by (simp add: Answer_save_def truthy_user_def truthy_int_def Let_def
        validate_unique_together_for_null_fields_def)

text \<open>
  C9. The claim: \<open>Answer.save\<close> raises whenever both the user and the anonymous id are set,
  so no stored answer has both. The code tests both for truthiness: with a user and the
  anonymous id 0 the save goes through, and the stored row has both columns non-null.
\<close>

theorem Answer_save_user_and_zero_token:
  "Answer_save ex_store
     \<lparr>answer_id = 0, answer_question = 2, answer_text = Some ''hello'',
      answer_user = Some 7, answer_anonymous_id = Some 0\<rparr>
   = Inr (ex_store\<lparr>answer_table :=
                     [\<lparr>answer_id = 1, answer_question = 2, answer_text = Some ''hello'',
                       answer_user = Some 7, answer_anonymous_id = Some 0\<rparr>],
                   next_answer_id := 2\<rparr>,
          \<lparr>answer_id = 1, answer_question = 2, answer_text = Some ''hello'',
           answer_user = Some 7, answer_anonymous_id = Some 0\<rparr>)"
  by (simp add: Answer_save_def truthy_user_def truthy_int_def Let_def
        validate_unique_together_for_null_fields_def ex_store_def)

section \<open>The shape of an answer\<close>

text \<open>
  C2, as stated, fails: a single-choice answer that carries an empty list of choices and
  no text passes the validation.
\<close>

theorem single_choice_zero_choices_accepted:
  "AnswerSerializer_validate \<lparr>attrs_question = ex_q1, attrs_text = None, attrs_choice = Some []\<rparr>
   = Inr \<lparr>attrs_question = ex_q1, attrs_text = None, attrs_choice = Some []\<rparr>"
  by (simp add: AnswerSerializer_validate_def ex_q1_def)

text \<open>
  C2, amended. For a single-choice question and an answer that carries a list of choices:
  the answer is accepted when the list has at most one choice and there is no text, and
  rejected with a validation error when the list has two or more choices or a text is
  present.
\<close>

theorem single_choice_answer_shape:
  assumes "question_type (attrs_question attrs) = Single_choice"
      and "attrs_choice attrs = Some choice"
  shows "(length choice \<le> 1 \<and> attrs_text attrs = None
            \<longrightarrow> AnswerSerializer_validate attrs = Inr attrs)
       \<and> (2 \<le> length choice \<or> attrs_text attrs \<noteq> None
            \<longrightarrow> AnswerSerializer_validate attrs = Inl (ValidationError
                  ''This question only for one choice and choice field not contains text''))"
  using assms by (auto simp: AnswerSerializer_validate_def)

theorem single_choice_answer_shape_witness:
  "question_type (attrs_question ex_a1) = Single_choice
   \<and> attrs_choice ex_a1 = Some [ex_c1]
   \<and> length [ex_c1] \<le> 1 \<and> attrs_text ex_a1 = None
   \<and> AnswerSerializer_validate ex_a1 = Inr ex_a1
   \<and> AnswerSerializer_validate (ex_a1\<lparr>attrs_choice := Some [ex_c1, ex_c2]\<rparr>)
       = Inl (ValidationError
               ''This question only for one choice and choice field not contains text'')"
  using single_choice_answer_shape [of ex_a1 "[ex_c1]"]
        single_choice_answer_shape
          [of "ex_a1\<lparr>attrs_choice := Some [ex_c1, ex_c2]\<rparr>" "[ex_c1, ex_c2]"]
  by (simp add: ex_a1_def ex_q1_def)

section \<open>Validation of a vote\<close>

lemma validate_answers_Inr: "validate_answers xs = Inr ys \<Longrightarrow> ys = xs"
proof (induction xs arbitrary: ys)
  case Nil
  then show ?case by simp
next
  case (Cons a xs)
  then show ?case
    by (auto simp: AnswerSerializer_validate_def Let_def
        split: sum.splits if_splits option.splits)
qed

lemma is_valid_Inr:
  "UserPollSerializer_is_valid st pk body = Inr vd \<Longrightarrow>
   vd = body \<and> UserPollSerializer_validate st pk body = Inr body"
  by (auto simp: UserPollSerializer_is_valid_def UserPollSerializer_validate_def Let_def
      dest!: validate_answers_Inr split: sum.splits if_splits)

lemma check_poll_ids_Inr:
  "check_poll_ids pk as = Inr u \<Longrightarrow> a \<in> set as \<Longrightarrow>
   str_nat (question_poll (attrs_question a)) = pk"
  by (induction as) (auto split: if_splits)

lemma validate_Inr:
  assumes "UserPollSerializer_validate st pk attrs = Inr vd"
  shows "\<exists>poll. polls_get (poll_table st) pk = Inr poll
           \<and> length (poll_questions st poll) = length (data_answers attrs)
           \<and> set (map (question_id \<circ> attrs_question) (data_answers attrs))
               = set (map question_id (poll_questions st poll))
           \<and> (\<forall>a \<in> set (data_answers attrs).
                 str_nat (question_poll (attrs_question a)) = pk)"
  using assms
  by (auto simp: UserPollSerializer_validate_def UserPolls_queryset_def Let_def
      split: sum.splits if_splits dest: check_poll_ids_Inr)

lemma poll_questions_distinct:
  "distinct (map question_id (question_table st)) \<Longrightarrow>
   distinct (map question_id (poll_questions st poll))"
  by (simp add: poll_questions_def distinct_map_filter)

lemma validate_distinct:
  assumes "distinct (map question_id (question_table st))"
      and "UserPollSerializer_validate st pk attrs = Inr vd"
  shows "distinct (map (question_id \<circ> attrs_question) (data_answers attrs))"
proof -
  obtain poll where len: "length (poll_questions st poll) = length (data_answers attrs)"
    and eq: "set (map (question_id \<circ> attrs_question) (data_answers attrs))
               = set (map question_id (poll_questions st poll))"
    using validate_Inr [OF assms(2)] by blast
  have "card (set (map question_id (poll_questions st poll))) = length (poll_questions st poll)"
    using poll_questions_distinct [OF assms(1), of poll] distinct_card by fastforce
  then have "card (set (map (question_id \<circ> attrs_question) (data_answers attrs)))
               = length (map (question_id \<circ> attrs_question) (data_answers attrs))"
    using len eq by simp
  then show ?thesis by (rule card_distinct)
qed

section \<open>The vote as a transaction\<close>

lemma vote_in_poll_Inl: "vote_in_poll st pk user body = (st1, Inl e) \<Longrightarrow> st1 = st"
  by (auto simp: vote_in_poll_def atomic_def split: sum.splits prod.splits)

lemma vote_in_poll_invalid:
  "UserPollSerializer_is_valid st pk body = Inl e \<Longrightarrow>
   vote_in_poll st pk user body = (st, Inl e)"
  by (simp add: vote_in_poll_def atomic_def)

lemma vote_in_poll_Inr:
  "vote_in_poll st pk user body = (st1, Inr r) \<Longrightarrow>
   UserPollSerializer_is_valid st pk body = Inr body
   \<and> UserPollSerializer_create st user body = (st1, Inr r)"
  by (auto simp: vote_in_poll_def atomic_def split: sum.splits prod.splits dest: is_valid_Inr)

lemma ex_vote_result: "vote_in_poll ex_store ''1'' None ex_vote = (ex_voted ex_store, Inr ex_result)"
  by (simp add: vote_defs ex_defs)

lemma ex_double_vote_invalid:
  "UserPollSerializer_is_valid ex_store ''1'' ex_double_vote
     = Inl (ValidationError ''Invalid question ids for this poll'')"
  by (simp add: vote_defs ex_defs)

text \<open>
  C3. In a store whose question ids are distinct, a vote is accepted only if the question
  ids of its answers are pairwise distinct and are exactly the ids of the poll's
  questions, each answered question pointing at the poll of the URL; so a missing, an
  extra, a repeated or a foreign question is rejected. A vote rejected by the validation
  leaves the store as it was.
\<close>

theorem vote_question_set_exact:
  assumes "distinct (map question_id (question_table st))"
  shows "(vote_in_poll st pk user body = (st1, Inr r) \<longrightarrow>
           (\<exists>poll. polls_get (poll_table st) pk = Inr poll
              \<and> distinct (map (question_id \<circ> attrs_question) (data_answers body))
              \<and> set (map (question_id \<circ> attrs_question) (data_answers body))
                  = set (map question_id (poll_questions st poll))
              \<and> (\<forall>a \<in> set (data_answers body).
                    str_nat (question_poll (attrs_question a)) = pk)))
       \<and> (UserPollSerializer_is_valid st pk body = Inl e \<longrightarrow>
            vote_in_poll st pk user body = (st, Inl e))"
proof (intro conjI impI)
  assume "vote_in_poll st pk user body = (st1, Inr r)"
  then have ok: "UserPollSerializer_validate st pk body = Inr body"
    using vote_in_poll_Inr is_valid_Inr by blast
  then show "\<exists>poll. polls_get (poll_table st) pk = Inr poll
              \<and> distinct (map (question_id \<circ> attrs_question) (data_answers body))
              \<and> set (map (question_id \<circ> attrs_question) (data_answers body))
                  = set (map question_id (poll_questions st poll))
              \<and> (\<forall>a \<in> set (data_answers body).
                    str_nat (question_poll (attrs_question a)) = pk)"
    using validate_Inr [OF ok] validate_distinct [OF assms ok] by blast
next
  assume "UserPollSerializer_is_valid st pk body = Inl e"
  then show "vote_in_poll st pk user body = (st, Inl e)" by (rule vote_in_poll_invalid)
qed

theorem vote_question_set_exact_witness:
  "distinct (map question_id (question_table ex_store))
   \<and> vote_in_poll ex_store ''1'' None ex_vote = (ex_voted ex_store, Inr ex_result)
   \<and> polls_get (poll_table ex_store) ''1'' = Inr ex_poll
   \<and> distinct (map (question_id \<circ> attrs_question) (data_answers ex_vote))
   \<and> set (map (question_id \<circ> attrs_question) (data_answers ex_vote))
       = set (map question_id (poll_questions ex_store ex_poll))
   \<and> UserPollSerializer_is_valid ex_store ''1'' ex_double_vote
       = Inl (ValidationError ''Invalid question ids for this poll'')
   \<and> vote_in_poll ex_store ''1'' None ex_double_vote
       = (ex_store, Inl (ValidationError ''Invalid question ids for this poll''))"
proof -
  have d: "distinct (map question_id (question_table ex_store))"
    by (simp add: ex_defs)
  have p: "polls_get (poll_table ex_store) ''1'' = Inr ex_poll"
    by (simp add: vote_defs ex_defs)
  from vote_question_set_exact [OF d, of "''1''" None ex_vote "ex_voted ex_store" ex_result]
       vote_question_set_exact [OF d, of "''1''" None ex_double_vote]
       ex_vote_result ex_double_vote_invalid p d
  show ?thesis by auto
qed

section \<open>The write phase of a vote\<close>

lemma Answer_save_Inr:
  "Answer_save st self = Inr (st1, row) \<Longrightarrow>
   row = self\<lparr>answer_id := next_answer_id st\<rparr>
   \<and> st1 = st\<lparr>answer_table := answer_table st @ [row],
              next_answer_id := Suc (next_answer_id st)\<rparr>"
  by (auto simp: Answer_save_def Let_def split: if_splits sum.splits)

lemma choice_add_tables:
  "poll_table (choice_add st aid choice) = poll_table st"
  "question_table (choice_add st aid choice) = question_table st"
  "choice_table (choice_add st aid choice) = choice_table st"
  "answer_table (choice_add st aid choice) = answer_table st"
  "next_question_id (choice_add st aid choice) = next_question_id st"
  "next_choice_id (choice_add st aid choice) = next_choice_id st"
  by (simp_all add: choice_add_def)

lemma choice_add_mono:
  "set (answer_choice_table st) \<subseteq> set (answer_choice_table (choice_add st aid choice))"
  by (auto simp: choice_add_def)

lemma choice_add_linked:
  "c \<in> set choice \<Longrightarrow> (aid, choice_id c) \<in> set (answer_choice_table (choice_add st aid choice))"
  by (auto simp: choice_add_def)

lemma create_answers_Inr:
  "create_answers st user anon as = (st1, Inr rows) \<Longrightarrow>
     answer_table st1 = answer_table st @ rows
   \<and> map answer_question rows = map (question_id \<circ> attrs_question) as
   \<and> map answer_text rows = map attrs_text as
   \<and> (\<forall>row \<in> set rows. answer_user row = user \<and> answer_anonymous_id row = anon)
   \<and> poll_table st1 = poll_table st
   \<and> question_table st1 = question_table st
   \<and> choice_table st1 = choice_table st
   \<and> set (answer_choice_table st) \<subseteq> set (answer_choice_table st1)
   \<and> list_all2 (\<lambda>row a. \<forall>choice c. attrs_choice a = Some choice \<longrightarrow> c \<in> set choice \<longrightarrow>
                   (answer_id row, choice_id c) \<in> set (answer_choice_table st1)) rows as"
proof (induction as arbitrary: st st1 rows)
  case Nil
  then show ?case by simp
next
  case (Cons a as)
  let ?self = "\<lparr>answer_id = 0, answer_question = question_id (attrs_question a),
                answer_text = attrs_text a, answer_user = user, answer_anonymous_id = anon\<rparr>"
  from Cons.prems obtain sa row where sv: "Answer_save st ?self = Inr (sa, row)"
    by (auto split: sum.splits error.splits prod.splits)
  define sb where "sb = (case attrs_choice a of None \<Rightarrow> sa
                         | Some choice \<Rightarrow> if choice \<noteq> [] then choice_add sa (answer_id row) choice else sa)"
  from Cons.prems sv obtain rest where rec: "create_answers sb user anon as = (st1, Inr rest)"
    and rows: "rows = row # rest"
    by (auto simp: sb_def Let_def split: sum.splits prod.splits)
  note sa = Answer_save_Inr [OF sv]
  have sb_tabs: "poll_table sb = poll_table st" "question_table sb = question_table st"
    "choice_table sb = choice_table st" "answer_table sb = answer_table st @ [row]"
    using sa by (auto simp: sb_def choice_add_tables split: option.splits)
  have sb_mono: "set (answer_choice_table st) \<subseteq> set (answer_choice_table sb)"
    using sa choice_add_mono [of sa "answer_id row"] by (auto simp: sb_def split: option.splits)
  have sb_link: "\<forall>choice c. attrs_choice a = Some choice \<longrightarrow> c \<in> set choice \<longrightarrow>
                   (answer_id row, choice_id c) \<in> set (answer_choice_table sb)"
    using choice_add_linked [of _ _ "answer_id row" sa] by (auto simp: sb_def)
  note ih = Cons.IH [OF rec]
  have row_f: "answer_question row = question_id (attrs_question a)" "answer_text row = attrs_text a"
    "answer_user row = user" "answer_anonymous_id row = anon"
    using sa by simp_all
  show ?case
    using ih sb_tabs sb_mono sb_link row_f unfolding rows
    by (auto simp: subset_iff)
qed

lemma create_Inr:
  "UserPollSerializer_create st user vd = (st1, Inr r) \<Longrightarrow>
   create_answers st user (data_anonymous_id vd) (data_answers vd) = (st1, Inr (result_answers r))"
  by (auto simp: UserPollSerializer_create_def split: prod.splits sum.splits)

text \<open>
  C5. A vote is all or nothing. When the call ends in an error, whether of the validation
  or of the write phase, the store is the one before the call. When it succeeds, the new
  answer rows are appended to the answer table, one for each submitted answer in order
  with its question and text, as many as the poll has questions and covering exactly the
  poll's questions (each once when the store's question ids are distinct); every choice a
  submitted answer carries is linked to its row in the join table; and the other tables
  are untouched.
\<close>

theorem vote_all_or_nothing:
  assumes "vote_in_poll st pk user body = (st1, res)"
  shows "case res of
           Inl e \<Rightarrow> st1 = st
         | Inr r \<Rightarrow>
             (\<exists>poll. polls_get (poll_table st) pk = Inr poll
                \<and> answer_table st1 = answer_table st @ result_answers r
                \<and> length (result_answers r) = length (poll_questions st poll)
                \<and> set (map answer_question (result_answers r))
                    = set (map question_id (poll_questions st poll))
                \<and> (distinct (map question_id (question_table st))
                      \<longrightarrow> distinct (map answer_question (result_answers r)))
                \<and> list_all2 (\<lambda>row a. answer_question row = question_id (attrs_question a)
                               \<and> answer_text row = attrs_text a
                               \<and> (\<forall>choice c. attrs_choice a = Some choice \<longrightarrow> c \<in> set choice \<longrightarrow>
                                     (answer_id row, choice_id c) \<in> set (answer_choice_table st1)))
                     (result_answers r) (data_answers body)
                \<and> set (answer_choice_table st) \<subseteq> set (answer_choice_table st1)
                \<and> poll_table st1 = poll_table st
                \<and> question_table st1 = question_table st
                \<and> choice_table st1 = choice_table st)"
proof (cases res)
  case (Inl e)
  then show ?thesis using assms vote_in_poll_Inl by auto
next
  case (Inr r)
  with assms have v: "vote_in_poll st pk user body = (st1, Inr r)" by simp
  have ok: "UserPollSerializer_validate st pk body = Inr body"
    using vote_in_poll_Inr [OF v] is_valid_Inr by blast
  have cr: "create_answers st user (data_anonymous_id body) (data_answers body)
              = (st1, Inr (result_answers r))"
    using vote_in_poll_Inr [OF v] create_Inr by blast
  note c = create_answers_Inr [OF cr]
  obtain poll where p: "polls_get (poll_table st) pk = Inr poll"
    and len: "length (poll_questions st poll) = length (data_answers body)"
    and eq: "set (map (question_id \<circ> attrs_question) (data_answers body))
               = set (map question_id (poll_questions st poll))"
    using validate_Inr [OF ok] by blast
  have q: "map answer_question (result_answers r)
             = map (question_id \<circ> attrs_question) (data_answers body)"
    using c by simp
  have t: "map answer_text (result_answers r) = map attrs_text (data_answers body)"
    using c by simp
  have l: "length (result_answers r) = length (data_answers body)"
    using q by (metis length_map)
  have la: "list_all2 (\<lambda>row a. answer_question row = question_id (attrs_question a)
                               \<and> answer_text row = attrs_text a
                               \<and> (\<forall>choice c. attrs_choice a = Some choice \<longrightarrow> c \<in> set choice \<longrightarrow>
                                     (answer_id row, choice_id c) \<in> set (answer_choice_table st1)))
                     (result_answers r) (data_answers body)"
  proof (rule list_all2_all_nthI [OF l])
    fix n assume n: "n < length (result_answers r)"
    have "answer_question (result_answers r ! n) = question_id (attrs_question (data_answers body ! n))"
      using q n l by (metis comp_apply nth_map)
    moreover have "answer_text (result_answers r ! n) = attrs_text (data_answers body ! n)"
      using t n l by (metis nth_map)
    moreover have "\<forall>choice c. attrs_choice (data_answers body ! n) = Some choice \<longrightarrow> c \<in> set choice \<longrightarrow>
                     (answer_id (result_answers r ! n), choice_id c) \<in> set (answer_choice_table st1)"
      using c n by (simp add: list_all2_conv_all_nth)
    ultimately show "answer_question (result_answers r ! n) = question_id (attrs_question (data_answers body ! n))
            \<and> answer_text (result_answers r ! n) = attrs_text (data_answers body ! n)
            \<and> (\<forall>choice c. attrs_choice (data_answers body ! n) = Some choice \<longrightarrow> c \<in> set choice \<longrightarrow>
                     (answer_id (result_answers r ! n), choice_id c) \<in> set (answer_choice_table st1))"
      by blast
  qed
  have d: "distinct (map question_id (question_table st))
             \<longrightarrow> distinct (map answer_question (result_answers r))"
    using validate_distinct [OF _ ok] q by simp
  show ?thesis
    unfolding Inr using p c len eq q l la d by auto
qed

theorem vote_all_or_nothing_witness:
  "vote_in_poll ex_store ''1'' None ex_vote = (ex_voted ex_store, Inr ex_result)
   \<and> polls_get (poll_table ex_store) ''1'' = Inr ex_poll
   \<and> answer_table (ex_voted ex_store) = answer_table ex_store @ result_answers ex_result
   \<and> length (result_answers ex_result) = length (poll_questions ex_store ex_poll)
   \<and> (1, choice_id ex_c1) \<in> set (answer_choice_table (ex_voted ex_store))
   \<and> vote_in_poll ex_store ''1'' None ex_double_vote
       = (ex_store, Inl (ValidationError ''Invalid question ids for this poll''))"
proof -
  have w: "vote_in_poll ex_store ''1'' None ex_double_vote
       = (ex_store, Inl (ValidationError ''Invalid question ids for this poll''))"
    using ex_double_vote_invalid by (rule vote_in_poll_invalid)
  have p: "polls_get (poll_table ex_store) ''1'' = Inr ex_poll"
    by (simp add: vote_defs ex_defs)
  from vote_all_or_nothing [OF ex_vote_result] vote_all_or_nothing [OF w] p w ex_vote_result
  show ?thesis by (simp add: ex_defs poll_questions_def)
qed

section \<open>Voting twice\<close>

lemma create_answers_duplicate:
  assumes "\<not> (truthy_user user \<and> truthy_int anon)"
      and "a \<in> set as"
      and "list_ex (\<lambda>r. answer_user r = user \<and> answer_anonymous_id r = anon
                       \<and> answer_question r = question_id (attrs_question a)) (answer_table st)"
  shows "\<exists>st1. create_answers st user anon as = (st1, Inl (ValidationError ''Value not unique''))"
  using assms
proof (induction as arbitrary: st)
  case Nil
  then show ?case by simp
next
  case (Cons x xs)
  let ?self = "\<lparr>answer_id = 0, answer_question = question_id (attrs_question x),
                answer_text = attrs_text x, answer_user = user, answer_anonymous_id = anon\<rparr>"
  show ?case
  proof (cases "list_ex (\<lambda>r. answer_user r = user \<and> answer_anonymous_id r = anon
                       \<and> answer_question r = question_id (attrs_question x)) (answer_table st)")
    case True
    then have "Answer_save st ?self = Inl (ValueError ''Value not unique'')"
      using Cons.prems(1)
      by (simp add: Answer_save_def validate_unique_together_for_null_fields_def)
    then show ?thesis by simp
  next
    case False
    then obtain sa row where sv: "Answer_save st ?self = Inr (sa, row)"
      using Cons.prems(1)
      by (simp add: Answer_save_def validate_unique_together_for_null_fields_def Let_def)
    define sb where "sb = (case attrs_choice x of None \<Rightarrow> sa
                         | Some choice \<Rightarrow> if choice \<noteq> [] then choice_add sa (answer_id row) choice else sa)"
    have tab: "answer_table sb = answer_table st @ [row]"
      using Answer_save_Inr [OF sv] by (auto simp: sb_def choice_add_tables split: option.splits)
    have "a \<in> set xs" using Cons.prems(2,3) False by auto
    moreover have "list_ex (\<lambda>r. answer_user r = user \<and> answer_anonymous_id r = anon
                       \<and> answer_question r = question_id (attrs_question a)) (answer_table sb)"
      using Cons.prems(3) tab by (auto simp: list_ex_iff)
    ultimately obtain s3 where
      "create_answers sb user anon xs = (s3, Inl (ValidationError ''Value not unique''))"
      using Cons.IH [OF Cons.prems(1)] by blast
    then show ?thesis using sv by (simp add: sb_def Let_def)
  qed
qed

lemma validate_answers_error:
  "validate_answers xs = Inl e \<Longrightarrow> e \<noteq> ValidationError ''Value not unique''"
proof (induction xs)
  case Nil
  then show ?case by simp
next
  case (Cons a xs)
  then show ?case
    by (auto simp: AnswerSerializer_validate_def Let_def
        split: sum.splits if_splits option.splits)
qed

lemma check_poll_ids_error:
  "check_poll_ids pk xs = Inl e \<Longrightarrow> e \<noteq> ValidationError ''Value not unique''"
  by (induction xs) (auto split: if_splits)

lemma polls_get_error:
  "polls_get qs pk = Inl e \<Longrightarrow> e \<noteq> ValidationError ''Value not unique''"
  by (auto simp: polls_get_def split: option.splits)

lemma is_valid_error:
  "UserPollSerializer_is_valid st pk body = Inl e \<Longrightarrow> e \<noteq> ValidationError ''Value not unique''"
  by (auto simp: UserPollSerializer_is_valid_def UserPollSerializer_validate_def Let_def
      split: sum.splits if_splits
      dest: validate_answers_error check_poll_ids_error polls_get_error)

text \<open>
  C4, as stated, fails for a question repeated within one call: the call is rejected by
  the validation of the question set, with that validation's error and not the
  duplicate-vote error, and the store holds no answer row for the pair afterwards.
\<close>

theorem duplicate_within_call_counterexample:
  "vote_in_poll ex_store ''1'' None ex_double_vote
     = (ex_store, Inl (ValidationError ''Invalid question ids for this poll''))
   \<and> ValidationError ''Invalid question ids for this poll''
       \<noteq> ValidationError ''Value not unique''
   \<and> filter (\<lambda>r. answer_anonymous_id r = Some 42 \<and> answer_question r = 1)
        (answer_table ex_store) = []"
  by (simp add: vote_in_poll_invalid [OF ex_double_vote_invalid]) (simp add: ex_defs)

text \<open>
  C4, amended. For a voter whose two identities are not both truthy and a body that
  passes the validation: when some submitted question already has a stored answer row of
  that voter, the call fails with the duplicate-vote validation error and the store is
  unchanged, so the rows of that pair are the ones stored before. A body that repeats a
  question never reaches the write phase: in a store with distinct question ids it is
  rejected with another error, and the store is unchanged.
\<close>

theorem duplicate_vote_rejected:
  "(UserPollSerializer_is_valid st pk body = Inr vd
      \<and> \<not> (truthy_user user \<and> truthy_int (data_anonymous_id body))
      \<and> a \<in> set (data_answers body)
      \<and> list_ex (\<lambda>r. answer_user r = user \<and> answer_anonymous_id r = data_anonymous_id body
                      \<and> answer_question r = question_id (attrs_question a)) (answer_table st)
     \<longrightarrow> vote_in_poll st pk user body = (st, Inl (ValidationError ''Value not unique'')))
   \<and> (distinct (map question_id (question_table st))
      \<and> \<not> distinct (map (question_id \<circ> attrs_question) (data_answers body))
     \<longrightarrow> (\<exists>e. vote_in_poll st pk user body = (st, Inl e)
              \<and> e \<noteq> ValidationError ''Value not unique''))"
proof (intro conjI impI)
  assume h: "UserPollSerializer_is_valid st pk body = Inr vd
      \<and> \<not> (truthy_user user \<and> truthy_int (data_anonymous_id body))
      \<and> a \<in> set (data_answers body)
      \<and> list_ex (\<lambda>r. answer_user r = user \<and> answer_anonymous_id r = data_anonymous_id body
                      \<and> answer_question r = question_id (attrs_question a)) (answer_table st)"
  then have vd: "UserPollSerializer_is_valid st pk body = Inr body"
    using is_valid_Inr by blast
  obtain s1 where "create_answers st user (data_anonymous_id body) (data_answers body)
                     = (s1, Inl (ValidationError ''Value not unique''))"
    using create_answers_duplicate [of user "data_anonymous_id body" a "data_answers body" st] h
    by blast
  then show "vote_in_poll st pk user body = (st, Inl (ValidationError ''Value not unique''))"
    using vd by (simp add: vote_in_poll_def atomic_def UserPollSerializer_create_def)
next
  assume h: "distinct (map question_id (question_table st))
      \<and> \<not> distinct (map (question_id \<circ> attrs_question) (data_answers body))"
  obtain e where e: "UserPollSerializer_is_valid st pk body = Inl e"
  proof (cases "UserPollSerializer_is_valid st pk body")
    case (Inl e)
    then show ?thesis using that by blast
  next
    case (Inr vd)
    then have "UserPollSerializer_validate st pk body = Inr body"
      using is_valid_Inr by blast
    then show ?thesis using validate_distinct h by blast
  qed
  then show "\<exists>e. vote_in_poll st pk user body = (st, Inl e)
              \<and> e \<noteq> ValidationError ''Value not unique''"
    using vote_in_poll_invalid is_valid_error by blast
qed

lemma ex_revote_valid: "UserPollSerializer_is_valid (ex_voted ex_store) ''1'' ex_vote = Inr ex_vote"
  by (simp add: vote_defs ex_defs)

theorem duplicate_vote_rejected_witness:
  "UserPollSerializer_is_valid (ex_voted ex_store) ''1'' ex_vote = Inr ex_vote
   \<and> \<not> (truthy_user None \<and> truthy_int (data_anonymous_id ex_vote))
   \<and> ex_a1 \<in> set (data_answers ex_vote)
   \<and> list_ex (\<lambda>r. answer_user r = None \<and> answer_anonymous_id r = data_anonymous_id ex_vote
                   \<and> answer_question r = question_id (attrs_question ex_a1))
        (answer_table (ex_voted ex_store))
   \<and> vote_in_poll (ex_voted ex_store) ''1'' None ex_vote
       = (ex_voted ex_store, Inl (ValidationError ''Value not unique''))
   \<and> distinct (map question_id (question_table ex_store))
   \<and> \<not> distinct (map (question_id \<circ> attrs_question) (data_answers ex_double_vote))
   \<and> vote_in_poll ex_store ''1'' None ex_double_vote
       = (ex_store, Inl (ValidationError ''Invalid question ids for this poll''))"
proof -
  have a: "\<not> (truthy_user None \<and> truthy_int (data_anonymous_id ex_vote))"
    by (simp add: truthy_user_def)
  have b: "ex_a1 \<in> set (data_answers ex_vote)"
    by (simp add: ex_vote_def)
  have c: "list_ex (\<lambda>r. answer_user r = None \<and> answer_anonymous_id r = data_anonymous_id ex_vote
                   \<and> answer_question r = question_id (attrs_question ex_a1))
        (answer_table (ex_voted ex_store))"
    by (simp add: ex_defs)
  have d: "distinct (map question_id (question_table ex_store))"
    by (simp add: ex_defs)
  have e: "\<not> distinct (map (question_id \<circ> attrs_question) (data_answers ex_double_vote))"
    by (simp add: ex_defs)
  have f: "vote_in_poll ex_store ''1'' None ex_double_vote
       = (ex_store, Inl (ValidationError ''Invalid question ids for this poll''))"
    using ex_double_vote_invalid by (rule vote_in_poll_invalid)
  from duplicate_vote_rejected [of "ex_voted ex_store" "''1''" ex_vote ex_vote None ex_a1]
       duplicate_vote_rejected [of ex_store "''1''" ex_double_vote ex_vote None ex_a1]
       ex_revote_valid a b c d e f
  show ?thesis by blast
qed

section \<open>Voting in a poll that is not active\<close>

text \<open>
  C1. The claim: a vote is accepted only for a poll that exists and is active (published,
  and the clock strictly between its start and end dates), and no answer row is ever
  stored for another poll. \<open>get_queryset\<close> applies that filter for the listing and the
  detail view, but the vote reads the poll from the unfiltered \<open>queryset\<close>: a vote for an
  unpublished poll, and a vote for a published poll after its end date, are accepted and
  their answer rows stored.
\<close>

theorem vote_in_inactive_poll:
  "UserPolls_get_queryset ex_draft_store 50 = []
   \<and> vote_in_poll ex_draft_store ''1'' None ex_vote = (ex_voted ex_draft_store, Inr ex_result)
   \<and> UserPolls_get_queryset ex_store 200 = []
   \<and> vote_in_poll ex_store ''1'' None ex_vote = (ex_voted ex_store, Inr ex_result)
   \<and> answer_table (ex_voted ex_draft_store) = [ex_row1, ex_row2]"
  by (simp add: vote_defs UserPolls_get_queryset_def ex_defs)

section \<open>Question administration\<close>

lemma find_Some_set: "find P xs = Some x \<Longrightarrow> x \<in> set xs \<and> P x"
  by (induction xs) (auto split: if_splits)

lemma polls_get_find:
  "polls_get qs pk = Inr poll \<Longrightarrow> find (\<lambda>p. poll_id p = poll_id poll) qs = Some poll"
  by (auto simp: polls_get_def find_Some_iff split: option.splits)

lemma initial_Inr:
  "polls_get (poll_table st) poll_pk = Inr poll \<Longrightarrow> QuestionAdmin_initial st poll_pk = Inr poll"
  by (simp add: QuestionAdmin_initial_def)

lemma get_object_poll:
  "QuestionAdmin_get_object st poll pk = Inr instance \<Longrightarrow>
   question_poll instance = poll_id poll \<and> instance \<in> set (question_table st)"
  by (auto simp: QuestionAdmin_get_object_def QuestionAdmin_get_queryset_def
      split: option.splits dest!: find_Some_set)

lemma get_object_error:
  "QuestionAdmin_get_object st poll pk = Inl e \<Longrightarrow> e = Http404"
  by (auto simp: QuestionAdmin_get_object_def split: option.splits)

lemma validate_question_error:
  "QuestionSerializer_validate body = Inl e \<Longrightarrow> e = ValidationError ''Choices values must be unique''"
  by (auto simp: QuestionSerializer_validate_def split: option.splits if_splits)

lemma validate_question_Inr:
  "QuestionSerializer_validate body = Inr vd \<Longrightarrow> vd = body"
  by (auto simp: QuestionSerializer_validate_def split: option.splits if_splits)

lemma create_published:
  assumes "polls_get (poll_table st) poll_pk = Inr poll" and "is_published poll"
  shows "QuestionSerializer_create st poll_pk validated_data
           = (st, Inl (ValidationError ''Cant update published poll''))"
  using assms by (simp add: QuestionSerializer_create_def Let_def)

lemma update_published:
  assumes "polls_get (poll_table st) poll_pk = Inr poll" and "is_published poll"
      and "question_poll instance = poll_id poll"
  shows "QuestionSerializer_update st instance validated_data
           = (st, Inl (ValidationError ''Cant update published poll''))"
  using polls_get_find [OF assms(1)] assms(2,3) by (simp add: QuestionSerializer_update_def)

text \<open>
  C6. For a published poll, every structural write to its questions and choices is
  rejected and leaves the store as it was. The serializer's create and update raise the
  validation error "Cant update published poll" before they write; the view's destroy
  raises "Poll already published and cannot be changed". Through the views, create ends
  in a validation error (that one, or the one for repeated choices, which is checked
  first), and update ends in a validation error or, when the poll has no such question,
  in a 404.
\<close>

theorem published_poll_is_frozen:
  assumes "polls_get (poll_table st) poll_pk = Inr poll" and "is_published poll"
  shows "QuestionSerializer_create st poll_pk validated_data
           = (st, Inl (ValidationError ''Cant update published poll''))
       \<and> (question_poll instance = poll_id poll \<longrightarrow>
            QuestionSerializer_update st instance validated_data
              = (st, Inl (ValidationError ''Cant update published poll'')))
       \<and> QuestionAdmin_destroy st poll_pk pk
           = (st, Inl (ValidationError ''Poll already published and cannot be changed''))
       \<and> (\<exists>msg. QuestionAdmin_create st poll_pk body = (st, Inl (ValidationError msg)))
       \<and> (\<exists>e. QuestionAdmin_update st poll_pk pk body = (st, Inl e)
               \<and> (e = Http404 \<or> (\<exists>msg. e = ValidationError msg)))"
proof (intro conjI impI)
  show "QuestionSerializer_create st poll_pk validated_data
           = (st, Inl (ValidationError ''Cant update published poll''))"
    using assms by (rule create_published)
  show "QuestionSerializer_update st instance validated_data
              = (st, Inl (ValidationError ''Cant update published poll''))"
    if "question_poll instance = poll_id poll"
    using assms that by (rule update_published)
  show "QuestionAdmin_destroy st poll_pk pk
           = (st, Inl (ValidationError ''Poll already published and cannot be changed''))"
    using initial_Inr [OF assms(1)] assms(2) by (simp add: QuestionAdmin_destroy_def atomic_def)
  show "\<exists>msg. QuestionAdmin_create st poll_pk body = (st, Inl (ValidationError msg))"
  proof (cases "QuestionSerializer_validate body")
    case (Inl e)
    then show ?thesis
      using initial_Inr [OF assms(1)] validate_question_error [OF Inl]
      by (simp add: QuestionAdmin_create_def atomic_def)
  next
    case (Inr vd)
    then show ?thesis
      using initial_Inr [OF assms(1)] create_published [OF assms]
      by (simp add: QuestionAdmin_create_def atomic_def)
  qed
  show "\<exists>e. QuestionAdmin_update st poll_pk pk body = (st, Inl e)
               \<and> (e = Http404 \<or> (\<exists>msg. e = ValidationError msg))"
  proof (cases "QuestionAdmin_get_object st poll pk")
    case (Inl e)
    then show ?thesis
      using initial_Inr [OF assms(1)] get_object_error [OF Inl]
      by (simp add: QuestionAdmin_update_def atomic_def)
  next
    case obj: (Inr inst)
    show ?thesis
    proof (cases "QuestionSerializer_validate body")
      case (Inl e)
      then show ?thesis
        using initial_Inr [OF assms(1)] obj validate_question_error [OF Inl]
        by (simp add: QuestionAdmin_update_def atomic_def)
    next
      case (Inr vd)
      then show ?thesis
        using initial_Inr [OF assms(1)] obj get_object_poll [OF obj]
          update_published [OF assms, of inst vd]
        by (simp add: QuestionAdmin_update_def atomic_def)
    qed
  qed
qed

theorem published_poll_is_frozen_witness:
  "polls_get (poll_table ex_store) ''1'' = Inr ex_poll
   \<and> is_published ex_poll
   \<and> QuestionSerializer_create ex_store ''1'' ex_body
       = (ex_store, Inl (ValidationError ''Cant update published poll''))
   \<and> question_poll ex_q1 = poll_id ex_poll
   \<and> QuestionSerializer_update ex_store ex_q1 ex_body
       = (ex_store, Inl (ValidationError ''Cant update published poll''))
   \<and> QuestionAdmin_destroy ex_store ''1'' ''1''
       = (ex_store, Inl (ValidationError ''Poll already published and cannot be changed''))
   \<and> QuestionAdmin_create ex_store ''1'' ex_body
       = (ex_store, Inl (ValidationError ''Cant update published poll''))
   \<and> QuestionAdmin_update ex_store ''1'' ''1'' ex_body
       = (ex_store, Inl (ValidationError ''Cant update published poll''))"
proof -
  have p: "polls_get (poll_table ex_store) ''1'' = Inr ex_poll"
    by (simp add: admin_defs ex_defs)
  have q: "is_published ex_poll" by (simp add: ex_poll_def)
  have c: "QuestionAdmin_create ex_store ''1'' ex_body
       = (ex_store, Inl (ValidationError ''Cant update published poll''))"
    by (simp add: admin_defs ex_defs)
  have u: "QuestionAdmin_update ex_store ''1'' ''1'' ex_body
       = (ex_store, Inl (ValidationError ''Cant update published poll''))"
    by (simp add: admin_defs ex_defs)
  have k: "question_poll ex_q1 = poll_id ex_poll" by (simp add: ex_defs)
  from published_poll_is_frozen [OF p q, of ex_body ex_q1 "''1''" ex_body] p q c u k
  show ?thesis by simp
qed

section \<open>Creating a single-choice question\<close>

lemma atomic_Inl: "atomic f st = (st1, Inl e) \<Longrightarrow> st1 = st"
  by (auto simp: atomic_def split: prod.splits sum.splits)

lemma create_admin_Inl: "QuestionAdmin_create st poll_pk body = (st1, Inl e) \<Longrightarrow> st1 = st"
  by (auto simp: QuestionAdmin_create_def split: sum.splits dest: atomic_Inl)

lemma create_single_never_Inr:
  assumes "qd_type vd = Some Single_choice"
      and "pop_choices (qd_choices vd) = Some cs"
      and "length cs \<noteq> 1"
  shows "QuestionSerializer_create st poll_pk vd \<noteq> (st1, Inr q)"
  using assms
  by (auto simp: QuestionSerializer_create_def Question_objects_create_def
      check_single_choice_def has_choice_def Let_def
      split: sum.splits error.splits if_splits prod.splits)

text \<open>
  C8, as stated, fails in its second half: creating a single-choice question with an
  empty list of choices does not succeed. The count check runs on the empty list too and
  rejects it, and the transaction leaves the store as it was.
\<close>

theorem single_choice_create_empty_rejected:
  "QuestionAdmin_create ex_draft_store ''1'' ex_body_empty
     = (ex_draft_store, Inl (ValidationError ''Single choice allow only one choice''))"
  by (simp add: admin_defs ex_defs)

text \<open>
  C8, amended. When a single-choice question is created with a list of choices (a missing
  key counts as the empty list) whose length is not exactly one, the creation is rejected
  and the store is unchanged; when the poll exists and is not published, the choices are
  distinct and the question text is new in the poll, the error is the validation error
  "Single choice allow only one choice". This includes the empty list: a single-choice
  question cannot be created with zero choices. With exactly one choice, under the same
  conditions, the question and its choice are stored.
\<close>

theorem single_choice_create_needs_one_choice:
  assumes "qd_type body = Some Single_choice"
      and "pop_choices (qd_choices body) = Some cs"
  shows "(length cs \<noteq> 1 \<longrightarrow> (\<exists>e. QuestionAdmin_create st poll_pk body = (st, Inl e)))
       \<and> (length cs \<noteq> 1
            \<and> polls_get (poll_table st) poll_pk = Inr poll \<and> \<not> is_published poll
            \<and> distinct cs
            \<and> \<not> list_ex (\<lambda>q. question_poll q = poll_id poll \<and> question_text q = qd_text body)
                   (question_table st)
           \<longrightarrow> QuestionAdmin_create st poll_pk body
                 = (st, Inl (ValidationError ''Single choice allow only one choice'')))
       \<and> (length cs = 1
            \<and> polls_get (poll_table st) poll_pk = Inr poll \<and> \<not> is_published poll
            \<and> \<not> list_ex (\<lambda>q. question_poll q = poll_id poll \<and> question_text q = qd_text body)
                   (question_table st)
            \<and> \<not> list_ex (\<lambda>c. choice_question c = next_question_id st) (choice_table st)
           \<longrightarrow> (\<exists>st1 q. QuestionAdmin_create st poll_pk body = (st1, Inr q)
                  \<and> q = \<lparr>question_id = next_question_id st, question_poll = poll_id poll,
                          question_text = qd_text body, question_type = Single_choice\<rparr>
                  \<and> question_table st1 = question_table st @ [q]
                  \<and> choice_table st1 = choice_table st @
                       [\<lparr>choice_id = next_choice_id st, choice_question = question_id q,
                         choice_text = hd cs\<rparr>]))"
proof (intro conjI impI)
  assume n: "length cs \<noteq> 1"
  obtain s1 r where res: "QuestionAdmin_create st poll_pk body = (s1, r)"
    by (cases "QuestionAdmin_create st poll_pk body") blast
  show "\<exists>e. QuestionAdmin_create st poll_pk body = (st, Inl e)"
  proof (cases r)
    case (Inl e)
    then show ?thesis using res create_admin_Inl by blast
  next
    case (Inr q)
    with res have "QuestionSerializer_create st poll_pk body = (s1, Inr q)"
      by (auto simp: QuestionAdmin_create_def atomic_def
          split: sum.splits prod.splits dest: validate_question_Inr)
    then show ?thesis using create_single_never_Inr [OF assms n] by blast
  qed
next
  assume h: "length cs \<noteq> 1
            \<and> polls_get (poll_table st) poll_pk = Inr poll \<and> \<not> is_published poll
            \<and> distinct cs
            \<and> \<not> list_ex (\<lambda>q. question_poll q = poll_id poll \<and> question_text q = qd_text body)
                   (question_table st)"
  have v: "QuestionSerializer_validate body = Inr body"
    using h assms(2)
    by (cases "qd_choices body")
       (auto simp: QuestionSerializer_validate_def get_choices_def pop_choices_def distinct_card)
  have c: "QuestionSerializer_create st poll_pk body
             = (st\<lparr>question_table := question_table st @
                     [\<lparr>question_id = next_question_id st, question_poll = poll_id poll,
                       question_text = qd_text body, question_type = Single_choice\<rparr>],
                   next_question_id := Suc (next_question_id st)\<rparr>,
                Inl (ValidationError ''Single choice allow only one choice''))"
    using h assms
    by (simp add: QuestionSerializer_create_def Question_objects_create_def
        check_single_choice_def has_choice_def Let_def)
  show "QuestionAdmin_create st poll_pk body
                 = (st, Inl (ValidationError ''Single choice allow only one choice''))"
    using h initial_Inr [of st poll_pk poll] v c
    by (simp add: QuestionAdmin_create_def atomic_def)
next
  assume h: "length cs = 1
            \<and> polls_get (poll_table st) poll_pk = Inr poll \<and> \<not> is_published poll
            \<and> \<not> list_ex (\<lambda>q. question_poll q = poll_id poll \<and> question_text q = qd_text body)
                   (question_table st)
            \<and> \<not> list_ex (\<lambda>c. choice_question c = next_question_id st) (choice_table st)"
  then obtain t where cs: "cs = [t]"
    by (cases cs) auto
  have v: "QuestionSerializer_validate body = Inr body"
    using cs assms(2)
    by (cases "qd_choices body")
       (auto simp: QuestionSerializer_validate_def get_choices_def pop_choices_def)
  let ?q = "\<lparr>question_id = next_question_id st, question_poll = poll_id poll,
             question_text = qd_text body, question_type = Single_choice\<rparr>"
  have c: "QuestionSerializer_create st poll_pk body
             = (st\<lparr>question_table := question_table st @ [?q],
                   next_question_id := Suc (next_question_id st),
                   choice_table := choice_table st @
                     [\<lparr>choice_id = next_choice_id st, choice_question = next_question_id st,
                       choice_text = t\<rparr>],
                   next_choice_id := next_choice_id st + 1\<rparr>,
                Inr ?q)"
    using h assms cs
    by (simp add: QuestionSerializer_create_def Question_objects_create_def
        check_single_choice_def has_choice_def save_choices_def ChoiceAnswer_bulk_create_def
        Let_def list_ex_iff)
  show "\<exists>st1 q. QuestionAdmin_create st poll_pk body = (st1, Inr q)
                  \<and> q = \<lparr>question_id = next_question_id st, question_poll = poll_id poll,
                          question_text = qd_text body, question_type = Single_choice\<rparr>
                  \<and> question_table st1 = question_table st @ [q]
                  \<and> choice_table st1 = choice_table st @
                       [\<lparr>choice_id = next_choice_id st, choice_question = question_id q,
                         choice_text = hd cs\<rparr>]"
    using h initial_Inr [of st poll_pk poll] v c cs
    by (simp add: QuestionAdmin_create_def atomic_def)
qed

theorem single_choice_create_needs_one_choice_witness:
  "qd_type ex_body_empty = Some Single_choice
   \<and> pop_choices (qd_choices ex_body_empty) = Some []
   \<and> length ([] :: string list) \<noteq> 1
   \<and> polls_get (poll_table ex_draft_store) ''1'' = Inr (ex_poll\<lparr>is_published := False\<rparr>)
   \<and> \<not> is_published (ex_poll\<lparr>is_published := False\<rparr>)
   \<and> QuestionAdmin_create ex_draft_store ''1'' ex_body_empty
       = (ex_draft_store, Inl (ValidationError ''Single choice allow only one choice''))
   \<and> qd_type ex_body = Some Single_choice
   \<and> pop_choices (qd_choices ex_body) = Some [''a'']
   \<and> length [''a''] = 1
   \<and> QuestionAdmin_create ex_draft_store ''1'' ex_body
       = (ex_draft_store\<lparr>question_table := [ex_q1, ex_q2,
              \<lparr>question_id = 3, question_poll = 1, question_text = ''Q3'',
               question_type = Single_choice\<rparr>],
            next_question_id := 4,
            choice_table := [ex_c1, ex_c2,
              \<lparr>choice_id = 3, choice_question = 3, choice_text = ''a''\<rparr>],
            next_choice_id := 4\<rparr>,
          Inr \<lparr>question_id = 3, question_poll = 1, question_text = ''Q3'',
               question_type = Single_choice\<rparr>)"
proof -
  have a: "qd_type ex_body_empty = Some Single_choice"
    "pop_choices (qd_choices ex_body_empty) = Some []"
    "qd_type ex_body = Some Single_choice"
    "pop_choices (qd_choices ex_body) = Some [''a'']"
    by (simp_all add: ex_defs pop_choices_def)
  have p: "polls_get (poll_table ex_draft_store) ''1'' = Inr (ex_poll\<lparr>is_published := False\<rparr>)"
    by (simp add: admin_defs ex_defs)
  have f: "\<not> list_ex (\<lambda>q. question_poll q = poll_id (ex_poll\<lparr>is_published := False\<rparr>)
                        \<and> question_text q = qd_text ex_body_empty)
               (question_table ex_draft_store)"
    "\<not> list_ex (\<lambda>q. question_poll q = poll_id (ex_poll\<lparr>is_published := False\<rparr>)
                        \<and> question_text q = qd_text ex_body)
               (question_table ex_draft_store)"
    "\<not> list_ex (\<lambda>c. choice_question c = next_question_id ex_draft_store)
               (choice_table ex_draft_store)"
    by (simp_all add: ex_defs)
  have g: "QuestionAdmin_create ex_draft_store ''1'' ex_body
       = (ex_draft_store\<lparr>question_table := [ex_q1, ex_q2,
              \<lparr>question_id = 3, question_poll = 1, question_text = ''Q3'',
               question_type = Single_choice\<rparr>],
            next_question_id := 4,
            choice_table := [ex_c1, ex_c2,
              \<lparr>choice_id = 3, choice_question = 3, choice_text = ''a''\<rparr>],
            next_choice_id := 4\<rparr>,
          Inr \<lparr>question_id = 3, question_poll = 1, question_text = ''Q3'',
               question_type = Single_choice\<rparr>)"
    by (simp add: admin_defs ex_defs)
  from single_choice_create_needs_one_choice [OF a(1,2), of ex_draft_store "''1''"
         "ex_poll\<lparr>is_published := False\<rparr>"]
       single_choice_create_needs_one_choice [OF a(3,4), of ex_draft_store "''1''"
         "ex_poll\<lparr>is_published := False\<rparr>"]
       a p f g
  show ?thesis by simp
qed

section \<open>Updating a single-choice question\<close>

lemma update_admin_Inl: "QuestionAdmin_update st poll_pk pk body = (st1, Inl e) \<Longrightarrow> st1 = st"
  by (auto simp: QuestionAdmin_update_def split: sum.splits dest: atomic_Inl)

lemma delete_choices_tables:
  "poll_table (delete_choices st q) = poll_table st"
  "question_table (delete_choices st q) = question_table st"
  "choice_table (delete_choices st q)
     = filter (\<lambda>c. choice_question c \<noteq> question_id q) (choice_table st)"
  "next_choice_id (delete_choices st q) = next_choice_id st"
  by (simp_all add: delete_choices_def Let_def)

lemma new_choices_text:
  "map (choice_text \<circ> (\<lambda>(i, t). \<lparr>choice_id = i, choice_question = qid, choice_text = t\<rparr>))
     (enumerate n cs) = cs"
  by (induction cs arbitrary: n) simp_all

lemma new_choices_question:
  "filter (\<lambda>c. choice_question c = qid)
     (map (\<lambda>(i, t). \<lparr>choice_id = i, choice_question = qid, choice_text = t\<rparr>)
        (enumerate n cs))
   = map (\<lambda>(i, t). \<lparr>choice_id = i, choice_question = qid, choice_text = t\<rparr>)
        (enumerate n cs)"
  by (induction cs arbitrary: n) simp_all

lemma save_choices_after_delete:
  assumes "distinct cs"
  shows "\<exists>s2. save_choices (delete_choices st q) q (Some cs) = Inr s2
           \<and> question_table s2 = question_table st
           \<and> poll_table s2 = poll_table st
           \<and> choice_table s2 = filter (\<lambda>c. choice_question c \<noteq> question_id q) (choice_table st) @
                map (\<lambda>(i, t). \<lparr>choice_id = i, choice_question = question_id q, choice_text = t\<rparr>)
                  (enumerate (next_choice_id st) cs)"
  using assms
  by (auto simp: save_choices_def ChoiceAnswer_bulk_create_def delete_choices_tables list_ex_iff)

text \<open>
  C10. Updating a question never applies the exactly-one-choice rule. For a poll that is
  not published and an existing single-choice question of it, an update whose choice list
  (a missing key counts as the empty list) has any length succeeds, provided the choices
  are distinct, as the serializer's validation demands, and no other question of the poll
  has the new text. Afterwards the choice table holds the choices of the other questions
  followed by the new choices: all previous choices of the question are gone, and its
  choices are exactly the submitted ones.
\<close>

theorem update_single_choice_any_number_of_choices:
  assumes "polls_get (poll_table st) poll_pk = Inr poll"
      and "\<not> is_published poll"
      and "QuestionAdmin_get_object st poll pk = Inr instance"
      and "question_type instance = Single_choice"
      and "pop_choices (qd_choices body) = Some cs"
      and "distinct cs"
      and "\<not> list_ex (\<lambda>q. question_id q \<noteq> question_id instance
                          \<and> question_poll q = question_poll instance
                          \<and> question_text q = qd_text body) (question_table st)"
  shows "\<exists>st1 q. QuestionAdmin_update st poll_pk pk body = (st1, Inr q)
           \<and> question_id q = question_id instance
           \<and> choice_table st1
               = filter (\<lambda>c. choice_question c \<noteq> question_id instance) (choice_table st) @
                 map (\<lambda>(i, t). \<lparr>choice_id = i, choice_question = question_id instance,
                                choice_text = t\<rparr>)
                   (enumerate (next_choice_id st) cs)
           \<and> map choice_text (filter (\<lambda>c. choice_question c = question_id instance)
                                 (choice_table st1)) = cs"
proof -
  have v: "QuestionSerializer_validate body = Inr body"
    using assms(5,6)
    by (cases "qd_choices body")
       (auto simp: QuestionSerializer_validate_def get_choices_def pop_choices_def distinct_card)
  have fp: "find (\<lambda>p. poll_id p = question_poll instance) (poll_table st) = Some poll"
    using polls_get_find [OF assms(1)] get_object_poll [OF assms(3)] by simp
  obtain s2 where s2: "save_choices (delete_choices st instance) instance (Some cs) = Inr s2"
    and qt: "question_table s2 = question_table st"
    and ct: "choice_table s2
               = filter (\<lambda>c. choice_question c \<noteq> question_id instance) (choice_table st) @
                 map (\<lambda>(i, t). \<lparr>choice_id = i, choice_question = question_id instance,
                                choice_text = t\<rparr>)
                   (enumerate (next_choice_id st) cs)"
    using save_choices_after_delete [OF assms(6), of st "instance"] by blast
  obtain s3 q where u: "Question_update s2 instance body = Inr (s3, q)"
    and qid: "question_id q = question_id instance"
    and c3: "choice_table s3 = choice_table s2"
    using assms(7) qt by (simp add: Question_update_def Let_def)
  have "QuestionSerializer_update st instance body = (s3, Inr q)"
    using fp assms(2,5) s2 u by (simp add: QuestionSerializer_update_def Let_def)
  then have r: "QuestionAdmin_update st poll_pk pk body = (s3, Inr q)"
    using initial_Inr [OF assms(1)] assms(3) v
    by (simp add: QuestionAdmin_update_def atomic_def)
  have "map choice_text (filter (\<lambda>c. choice_question c = question_id instance)
                                 (choice_table s3)) = cs"
    unfolding c3 ct
    by (simp add: new_choices_question new_choices_text)
  then show ?thesis using r qid c3 ct by auto
qed

theorem update_single_choice_any_number_of_choices_witness:
  "polls_get (poll_table ex_draft_store) ''1'' = Inr (ex_poll\<lparr>is_published := False\<rparr>)
   \<and> \<not> is_published (ex_poll\<lparr>is_published := False\<rparr>)
   \<and> QuestionAdmin_get_object ex_draft_store (ex_poll\<lparr>is_published := False\<rparr>) ''1'' = Inr ex_q1
   \<and> question_type ex_q1 = Single_choice
   \<and> pop_choices (qd_choices ex_body_three) = Some [''a'', ''b'', ''c'']
   \<and> distinct [''a'', ''b'', ''c'']
   \<and> snd (QuestionAdmin_update ex_draft_store ''1'' ''1'' ex_body_three) = Inr ex_q1
   \<and> choice_table (fst (QuestionAdmin_update ex_draft_store ''1'' ''1'' ex_body_three))
       = [\<lparr>choice_id = 3, choice_question = 1, choice_text = ''a''\<rparr>,
          \<lparr>choice_id = 4, choice_question = 1, choice_text = ''b''\<rparr>,
          \<lparr>choice_id = 5, choice_question = 1, choice_text = ''c''\<rparr>]
   \<and> pop_choices (qd_choices ex_body_empty) = Some []
   \<and> snd (QuestionAdmin_update ex_draft_store ''1'' ''1'' ex_body_empty)
       = Inr (ex_q1\<lparr>question_text := ''Q3''\<rparr>)
   \<and> choice_table (fst (QuestionAdmin_update ex_draft_store ''1'' ''1'' ex_body_empty)) = []"
proof -
  let ?poll = "ex_poll\<lparr>is_published := False\<rparr>"
  have p: "polls_get (poll_table ex_draft_store) ''1'' = Inr ?poll"
    by (simp add: admin_defs ex_defs)
  have n: "\<not> is_published ?poll" by simp
  have g: "QuestionAdmin_get_object ex_draft_store ?poll ''1'' = Inr ex_q1"
    by (simp add: admin_defs ex_defs)
  have t: "question_type ex_q1 = Single_choice" by (simp add: ex_q1_def)
  have c3: "pop_choices (qd_choices ex_body_three) = Some [''a'', ''b'', ''c'']"
    and c0: "pop_choices (qd_choices ex_body_empty) = Some []"
    by (simp_all add: pop_choices_def ex_defs)
  have d3: "distinct [''a'', ''b'', ''c'']" and d0: "distinct ([] :: string list)" by simp_all
  have f3: "\<not> list_ex (\<lambda>q. question_id q \<noteq> question_id ex_q1
                          \<and> question_poll q = question_poll ex_q1
                          \<and> question_text q = qd_text ex_body_three) (question_table ex_draft_store)"
    and f0: "\<not> list_ex (\<lambda>q. question_id q \<noteq> question_id ex_q1
                          \<and> question_poll q = question_poll ex_q1
                          \<and> question_text q = qd_text ex_body_empty) (question_table ex_draft_store)"
    by (simp_all add: ex_defs)
  have r3: "QuestionAdmin_update ex_draft_store ''1'' ''1'' ex_body_three
     = (ex_draft_store\<lparr>choice_table :=
          [\<lparr>choice_id = 3, choice_question = 1, choice_text = ''a''\<rparr>,
           \<lparr>choice_id = 4, choice_question = 1, choice_text = ''b''\<rparr>,
           \<lparr>choice_id = 5, choice_question = 1, choice_text = ''c''\<rparr>],
          next_choice_id := 6\<rparr>, Inr ex_q1)"
    by (simp add: admin_defs ex_defs enumerate_eq_zip upt_rec [of 3] upt_rec [of 4] upt_rec [of 5])
  have r0: "QuestionAdmin_update ex_draft_store ''1'' ''1'' ex_body_empty
     = (ex_draft_store\<lparr>choice_table := [],
          question_table := [ex_q1\<lparr>question_text := ''Q3''\<rparr>, ex_q2]\<rparr>,
        Inr (ex_q1\<lparr>question_text := ''Q3''\<rparr>))"
    by (simp add: admin_defs ex_defs)
  from update_single_choice_any_number_of_choices [OF p n g t c3 d3 f3]
       update_single_choice_any_number_of_choices [OF p n g t c0 d0 f0]
       p n g t c3 c0 d3 r3 r0
  show ?thesis by simp
qed

end
